theory Spec2Isabelle
  imports Main "HOL-Library.AList"
begin

section \<open>Errors and logging\<close>

text \<open>
  A Go \<open>error\<close> value is modelled by its kind and its message; \<open>nil\<close> is \<open>None\<close> of
  \<open>go_error option\<close>. \<open>OSError\<close> stands for the errors handed back by the standard
  library and the operating system (\<open>net\<close>, \<open>os\<close>, \<open>encoding/json\<close>), \<open>Errorf\<close> for
  \<open>fmt.Errorf\<close>.
\<close>

datatype go_error =
    OSError string
  | Errorf string
  | InvalidParameterError string

text \<open>
  Modelled from the spec: \<open>types.InvalidParameterErrorf\<close> lives in the package
  \<open>daemon/libnetwork/types\<close>, which is not among the source files. The spec's taxonomy
  names the kind \<open>InvalidParameter\<close>; its \<open>Error()\<close> text is the formatted message.
\<close>

fun Error :: "go_error \<Rightarrow> string" where
  "Error (OSError m) = m"
| "Error (Errorf m) = m"
| "Error (InvalidParameterError m) = m"

datatype log_level = DebugLevel | ErrorLevel

type_synonym log_entry = "log_level \<times> string"

section \<open>The key exchange: \<open>sandbox_externalkey_unix.go\<close>\<close>

definition execSubdir :: string where
  "execSubdir = ''libnetwork''"

definition defaultExecRoot :: string where
  "defaultExecRoot = ''/run/docker''"

definition success :: string where
  "success = ''success''"

record setKeyData =
  ContainerID :: string
  Key :: string
  OTelTrace :: "(string \<times> string) list"

subsection \<open>Connections\<close>

text \<open>
  A connection (\<open>net.Conn\<close>, \<open>io.Reader\<close>) is the list of what its successive \<open>Read\<close>
  calls meet (a chunk of bytes that has arrived, or an error such as \<open>EOF\<close>), the
  failure a \<open>Write\<close> meets if the peer is gone, the bodies written so far, and whether
  it has been closed. \<open>Read\<close> with a buffer of \<open>n\<close> bytes returns at most \<open>n\<close> bytes
  of the chunk at the head and leaves the rest of it for a later call.
\<close>

datatype read_event = Bytes string | ReadError string

record conn =
  incoming :: "read_event list"
  write_failure :: "string option"
  written :: "string list"
  closed :: bool

definition conn_Read :: "nat \<Rightarrow> conn \<Rightarrow> (go_error + string) \<times> conn" where
  "conn_Read n c =
     (case incoming c of
        [] \<Rightarrow> (Inl (OSError ''EOF''), c)
      | ReadError e # rest \<Rightarrow> (Inl (OSError e), c\<lparr>incoming := rest\<rparr>)
      | Bytes bs # rest \<Rightarrow>
          (Inr (take n bs),
           c\<lparr>incoming := (if length bs \<le> n then rest else Bytes (drop n bs) # rest)\<rparr>))"

definition conn_Write :: "string \<Rightarrow> conn \<Rightarrow> go_error option \<times> conn" where
  "conn_Write bs c =
     (case write_failure c of
        Some e \<Rightarrow> (Some (OSError e), c)
      | None \<Rightarrow> (None, c\<lparr>written := written c @ [bs]\<rparr>))"

definition conn_Close :: "conn \<Rightarrow> conn" where
  "conn_Close c = c\<lparr>closed := True\<rparr>"

subsection \<open>The client: \<open>processReturn\<close>\<close>

text \<open>
  \<open>buf := make([]byte, 1024); n, err := r.Read(buf[:])\<close>: one read into a buffer of
  1024 bytes. A read error is wrapped by \<open>fmt.Errorf\<close>; bytes other than \<open>success\<close>
  become the error's message (\<open>fmt.Errorf("%s", buf[0:n])\<close>); otherwise \<open>nil\<close>.
\<close>

definition processReturn :: "conn \<Rightarrow> go_error option \<times> conn" where
  "processReturn r =
     (case conn_Read 1024 r of
        (Inl err, r') \<Rightarrow>
          (Some (Errorf (''failed to read buf in processReturn : '' @ Error err)), r')
      | (Inr buf, r') \<Rightarrow>
          (if buf \<noteq> success then Some (Errorf buf) else None, r'))"

subsection \<open>The controller's sandboxes\<close>

record sandbox =
  sandbox_id :: string
  sandbox_containerID :: string
  sandbox_key :: "string option"

record controller =
  ctrl_id :: string
  cfg_ExecRoot :: string
  sandboxes :: "(string \<times> sandbox) list"
  extKeyListener :: "string option"

text \<open>
  Modelled from the spec: \<open>Controller.GetSandbox\<close> is not among the source files. The
  spec says that the server "looks up the Sandbox by containerID": the first sandbox of
  the controller's table with that container id, together with the key it is stored
  under, or an error when there is none. The lookup reads the table and changes nothing.
\<close>

definition GetSandbox :: "controller \<Rightarrow> string \<Rightarrow> go_error + (string \<times> sandbox)" where
  "GetSandbox c containerID =
     (case find (\<lambda>(k, sb). sandbox_containerID sb = containerID) (sandboxes c) of
        None \<Rightarrow> Inl (OSError (''sandbox not found for container '' @ containerID))
      | Some e \<Rightarrow> Inr e)"

text \<open>
  What the listener calls but this file does not define is taken as a parameter:
  \<open>json.Unmarshal\<close> into a \<open>setKeyData\<close> (the standard library's decoder),
  \<open>Sandbox.SetKey\<close> (it returns an error or \<open>nil\<close>, and the sandbox as it leaves it),
  and \<open>stringid.TruncateID\<close>.
\<close>

record externals =
  Unmarshal :: "string \<Rightarrow> go_error + setKeyData"
  SetKey :: "sandbox \<Rightarrow> string \<Rightarrow> go_error option \<times> sandbox"
  TruncateID :: "string \<Rightarrow> string"

subsection \<open>The server: \<open>processExternalKey\<close> and the connection handler\<close>

text \<open>
  \<open>buf := make([]byte, 1280); nr, err := conn.Read(buf)\<close>, then \<open>json.Unmarshal\<close> of
  \<open>buf[0:nr]\<close>, then \<open>GetSandbox\<close> (whose error is replaced by the invalid-parameter
  error \<open>failed to get sandbox for <id>\<close>), then \<open>SetKey\<close> on the sandbox found. The
  sandbox is a pointer into the controller's table, so what \<open>SetKey\<close> does to it is
  written back under its key.
\<close>

definition processExternalKey ::
  "externals \<Rightarrow> controller \<Rightarrow> conn \<Rightarrow> go_error option \<times> controller \<times> conn" where
  "processExternalKey x c cn =
     (case conn_Read 1280 cn of
        (Inl err, cn') \<Rightarrow> (Some err, c, cn')
      | (Inr buf, cn') \<Rightarrow>
          (case Unmarshal x buf of
             Inl err \<Rightarrow> (Some err, c, cn')
           | Inr s \<Rightarrow>
               (case GetSandbox c (ContainerID s) of
                  Inl err \<Rightarrow>
                    (Some (InvalidParameterError
                       (''failed to get sandbox for '' @ ContainerID s)), c, cn')
                | Inr (k, sb) \<Rightarrow>
                    (case SetKey x sb (Key s) of
                       (err, sb') \<Rightarrow>
                         (err, c\<lparr>sandboxes := AList.update k sb' (sandboxes c)\<rparr>, cn')))))"

text \<open>
  The body of the goroutine started for each accepted connection: the response is
  \<open>success\<close>, or the error's text; it is written in one \<open>Write\<close>, a failed write is
  logged, and the deferred \<open>Close\<close> runs last.
\<close>

definition response :: "go_error option \<Rightarrow> string" where
  "response err = (case err of None \<Rightarrow> success | Some e \<Rightarrow> Error e)"

record server =
  srv_controller :: controller
  srv_log :: "log_entry list"
  srv_handled :: "conn list"

definition handleConnection :: "externals \<Rightarrow> server \<Rightarrow> conn \<Rightarrow> server" where
  "handleConnection x s cn =
     (case processExternalKey x (srv_controller s) cn of
        (err, c', cn') \<Rightarrow>
          (case conn_Write (response err) cn' of
             (werr, cn'') \<Rightarrow>
               s\<lparr>srv_controller := c',
                 srv_log := srv_log s @
                   (case werr of
                      None \<Rightarrow> []
                    | Some e \<Rightarrow> [(ErrorLevel, ''Error returning to the client '' @ Error e)]),
                 srv_handled := srv_handled s @ [conn_Close cn'']\<rparr>))"

subsection \<open>The accept loop: \<open>acceptClientConnections\<close>\<close>

text \<open>
  The loop blocks in \<open>Accept\<close>; what it meets there is the environment's: a connection,
  or an error, in which case the loop calls \<open>os.Stat\<close> on the socket path, whose outcome
  the event carries as well. The loop is a recursion over the list of these events; when
  the list is used up the loop is still blocked in \<open>Accept\<close> (\<open>Accepting\<close>). The
  handlers are goroutines; the model runs each one when its connection is accepted.
\<close>

datatype stat_result = StatOk | StatNotExist | StatError string

datatype accept_event = Accepted conn | AcceptFailed string stat_result

datatype loop_status = Accepting | Stopped

fun acceptClientConnections ::
  "externals \<Rightarrow> string \<Rightarrow> accept_event list \<Rightarrow> server \<Rightarrow> loop_status \<times> server" where
  "acceptClientConnections x sock [] s = (Accepting, s)"
| "acceptClientConnections x sock (Accepted cn # evs) s =
     acceptClientConnections x sock evs (handleConnection x s cn)"
| "acceptClientConnections x sock (AcceptFailed err st # evs) s =
     (if st = StatNotExist
      then (Stopped,
            s\<lparr>srv_log := srv_log s @
               [(DebugLevel, ''Unix socket '' @ sock @
                   '' was closed. The external key listener will stop.'')]\<rparr>)
      else acceptClientConnections x sock evs
            (s\<lparr>srv_log := srv_log s @
               [(ErrorLevel, ''Error accepting connection '' @ err)]\<rparr>))"

subsection \<open>Starting the listener: \<open>startExternalKeyListener\<close>\<close>

text \<open>
  The host as the listener's set-up sees it: the directories made (with their mode), the
  listening sockets that are open, the modes set by \<open>os.Chmod\<close>, and the accept loops
  that have been started (\<open>go c.acceptClientConnections(uds, l)\<close>), the last three by
  socket path. Whether \<open>os.MkdirAll\<close>, \<open>net.Listen\<close> and \<open>os.Chmod\<close> fail is the
  operating system's choice, so their outcomes are parameters.
\<close>

record host =
  host_dirs :: "(string \<times> nat) list"
  host_listeners :: "string list"
  host_modes :: "(string \<times> nat) list"
  host_tasks :: "string list"

record os_calls =
  MkdirAll :: "string \<Rightarrow> nat \<Rightarrow> go_error option"
  Listen :: "string \<Rightarrow> go_error option"
  Chmod :: "string \<Rightarrow> nat \<Rightarrow> go_error option"

text \<open>\<open>filepath.Join\<close> of two clean, non-empty elements: joined by a slash.\<close>

definition Join :: "string \<Rightarrow> string \<Rightarrow> string" where
  "Join a b = a @ ''/'' @ b"

text \<open>The file mode \<open>0o600\<close>.\<close>

definition mode_0o600 :: nat where
  "mode_0o600 = 6 * 64"

definition udsBase :: "controller \<Rightarrow> string" where
  "udsBase c =
     Join (if cfg_ExecRoot c \<noteq> [] then cfg_ExecRoot c else defaultExecRoot) execSubdir"

definition uds :: "externals \<Rightarrow> controller \<Rightarrow> string" where
  "uds x c = Join (udsBase c) (TruncateID x (ctrl_id c) @ ''.sock'')"

definition startExternalKeyListener ::
  "externals \<Rightarrow> os_calls \<Rightarrow> controller \<Rightarrow> host \<Rightarrow> go_error option \<times> controller \<times> host" where
  "startExternalKeyListener x os c h =
     (case MkdirAll os (udsBase c) mode_0o600 of
        Some err \<Rightarrow> (Some err, c, h)
      | None \<Rightarrow>
          (let h1 = h\<lparr>host_dirs := (udsBase c, mode_0o600) # host_dirs h\<rparr> in
           case Listen os (uds x c) of
             Some err \<Rightarrow> (Some err, c, h1)
           | None \<Rightarrow>
               (let h2 = h1\<lparr>host_listeners := uds x c # host_listeners h1\<rparr> in
                case Chmod os (uds x c) mode_0o600 of
                  Some err \<Rightarrow>
                    (Some err, c,
                     h2\<lparr>host_listeners := remove1 (uds x c) (host_listeners h2)\<rparr>)
                | None \<Rightarrow>
                    (None,
                     c\<lparr>extKeyListener := Some (uds x c)\<rparr>,
                     h2\<lparr>host_modes := (uds x c, mode_0o600) # host_modes h2,
                        host_tasks := uds x c # host_tasks h2\<rparr>))))"

text \<open>Which events of the accept loop are connections.\<close>

fun is_Accepted :: "accept_event \<Rightarrow> bool" where
  "is_Accepted (Accepted cn) = True"
| "is_Accepted (AcceptFailed e st) = False"

subsection \<open>Sample data for the key exchange\<close>

text \<open>
  A decoder that knows two requests, a \<open>SetKey\<close> that stores the key and succeeds, a
  decoder that rejects every request and quotes it in its error, a \<open>SetKey\<close> that fails,
  a controller with one sandbox (of container \<open>c1\<close>), connections on which one chunk
  has arrived, and operating systems on which every call of the set-up succeeds, or only
  \<open>Chmod\<close> fails.
\<close>

definition sample_externals :: externals where
  "sample_externals =
     \<lparr>Unmarshal = (\<lambda>b.
        if b = ''c1 /proc/42/ns/net''
        then Inr \<lparr>ContainerID = ''c1'', Key = ''/proc/42/ns/net'', OTelTrace = []\<rparr>
        else if b = ''c9 /proc/7/ns/net''
        then Inr \<lparr>ContainerID = ''c9'', Key = ''/proc/7/ns/net'', OTelTrace = []\<rparr>
        else Inl (OSError ''unexpected end of JSON input'')),
      SetKey = (\<lambda>sb k. (None, sb\<lparr>sandbox_key := Some k\<rparr>)),
      TruncateID = take 12\<rparr>"

definition echo_externals :: externals where
  "echo_externals =
     \<lparr>Unmarshal = (\<lambda>b. Inl (OSError b)),
      SetKey = (\<lambda>sb k. (None, sb)),
      TruncateID = take 12\<rparr>"

definition setkey_fails_externals :: externals where
  "setkey_fails_externals =
     sample_externals\<lparr>SetKey := (\<lambda>sb k. (Some (OSError ''failed to set key''), sb))\<rparr>"

definition sample_controller :: controller where
  "sample_controller =
     \<lparr>ctrl_id = ''0123456789abcdef'', cfg_ExecRoot = [],
      sandboxes = [(''sb1'', \<lparr>sandbox_id = ''sb1'', sandbox_containerID = ''c1'',
                            sandbox_key = None\<rparr>)],
      extKeyListener = None\<rparr>"

definition sample_server :: server where
  "sample_server = \<lparr>srv_controller = sample_controller, srv_log = [], srv_handled = []\<rparr>"

definition sample_conn :: "read_event list \<Rightarrow> conn" where
  "sample_conn evs = \<lparr>incoming = evs, write_failure = None, written = [], closed = False\<rparr>"

definition sample_host :: host where
  "sample_host = \<lparr>host_dirs = [], host_listeners = [], host_modes = [], host_tasks = []\<rparr>"

definition os_all_succeed :: os_calls where
  "os_all_succeed = \<lparr>MkdirAll = (\<lambda>p m. None), Listen = (\<lambda>p. None), Chmod = (\<lambda>p m. None)\<rparr>"

definition os_chmod_fails :: os_calls where
  "os_chmod_fails =
     \<lparr>MkdirAll = (\<lambda>p m. None), Listen = (\<lambda>p. None),
      Chmod = (\<lambda>p m. Some (OSError ''operation not permitted''))\<rparr>"

section \<open>The service record table\<close>

text \<open>
  The service records (section 4.3 of the spec) are code of the repository that is not
  among the source files: of \<open>daemon/libnetwork\<close> only \<open>sandbox_externalkey_unix.go\<close>
  and the internal test are. This part is modelled from the spec, and kept consistent with
  what \<open>TestServiceVIPReuse\<close> and \<open>TestSRVServiceQuery\<close> of
  \<open>libnetwork_internal_test.go\<close> call and expect.
\<close>


record network =
  net_name :: string
  net_id :: string




























subsection \<open>Sample data for the service records\<close>








section \<open>Properties of the key exchange\<close>

subsection \<open>Looking a sandbox up\<close>

lemma find_None_containerID:
  "find (\<lambda>(k, sb). sandbox_containerID sb = cid) xs = None \<longleftrightarrow>
   cid \<notin> sandbox_containerID ` snd ` set xs"
  by (induction xs) (auto split: prod.splits)

lemma GetSandbox_unknown:
  "cid \<notin> sandbox_containerID ` snd ` set (sandboxes c) \<Longrightarrow> \<exists>e. GetSandbox c cid = Inl e"
  by (auto simp: GetSandbox_def find_None_containerID[symmetric] split: option.splits)

subsection \<open>The response of the server\<close>

lemma handled_by_handleConnection:
  "srv_handled (handleConnection x s cn) =
     srv_handled s @
       [(snd (snd (processExternalKey x (srv_controller s) cn)))
          \<lparr>written :=
             (if write_failure cn = None
              then written cn @ [response (fst (processExternalKey x (srv_controller s) cn))]
              else written cn),
           closed := True\<rparr>]"
  by (auto simp: handleConnection_def processExternalKey_def conn_Read_def conn_Write_def
        conn_Close_def
      split: prod.splits sum.splits list.splits read_event.splits option.splits)

lemma processExternalKey_nil_iff:
  "fst (processExternalKey x c cn) = None \<longleftrightarrow>
     (\<exists>buf d k sb. fst (conn_Read 1280 cn) = Inr buf \<and> Unmarshal x buf = Inr d \<and>
        GetSandbox c (ContainerID d) = Inr (k, sb) \<and> fst (SetKey x sb (Key d)) = None)"
  by (auto simp: processExternalKey_def split: prod.splits sum.splits)

lemma processExternalKey_cases:
  "processExternalKey x c cn =
     (case fst (conn_Read 1280 cn) of
        Inl e \<Rightarrow> (Some e, c, snd (conn_Read 1280 cn))
      | Inr buf \<Rightarrow>
          (case Unmarshal x buf of
             Inl e \<Rightarrow> (Some e, c, snd (conn_Read 1280 cn))
           | Inr d \<Rightarrow>
               (case GetSandbox c (ContainerID d) of
                  Inl e \<Rightarrow>
                    (Some (InvalidParameterError
                       (''failed to get sandbox for '' @ ContainerID d)), c,
                     snd (conn_Read 1280 cn))
                | Inr (k, sb) \<Rightarrow>
                    (fst (SetKey x sb (Key d)),
                     c\<lparr>sandboxes := AList.update k (snd (SetKey x sb (Key d))) (sandboxes c)\<rparr>,
                     snd (conn_Read 1280 cn)))))"
  by (auto simp: processExternalKey_def split: prod.splits sum.splits)

lemma unknown_container:
  assumes "fst (conn_Read 1280 cn) = Inr buf" "Unmarshal x buf = Inr d"
    "ContainerID d \<notin> sandbox_containerID ` snd ` set (sandboxes c)"
  shows "fst (processExternalKey x c cn) =
           Some (InvalidParameterError (''failed to get sandbox for '' @ ContainerID d))"
    and "fst (snd (processExternalKey x c cn)) = c"
  using assms GetSandbox_unknown[OF assms(3)]
  by (auto simp: processExternalKey_def split: prod.splits sum.splits)

text \<open>
  Claim C3. For every key-exchange connection the handler hands exactly one body to
  \<open>Write\<close> (it reaches the peer unless the write itself fails) and closes the
  connection. The body is the literal \<open>success\<close> when the read, the decoding, the lookup
  of the sandbox by container id and \<open>SetKey\<close> all succeed, and \<open>processExternalKey\<close>
  returns \<open>nil\<close> in that case only. In every other case the body is the text of the
  error of the step that failed: the read error, the decoder's error, \<open>failed to get
  sandbox for <id>\<close> when the lookup fails, and the error of \<open>SetKey\<close> when \<open>SetKey\<close>
  fails. When the sandbox is found, the sandbox as \<open>SetKey\<close> leaves it is the one in the
  controller's table afterwards; when the read, the decoding or the lookup fails, and in
  particular for a container id that no sandbox of the controller has, the controller
  (its sandbox table included) is left as it was, and the body \<open>failed to get sandbox
  for <id>\<close> is not empty.
\<close>

theorem processExternalKey_response:
  "(\<exists>cn'. srv_handled (handleConnection x s cn) = srv_handled s @ [cn'] \<and> closed cn' \<and>
      written cn' =
        (if write_failure cn = None
         then written cn @ [response (fst (processExternalKey x (srv_controller s) cn))]
         else written cn))
   \<and> srv_controller (handleConnection x s cn) =
        fst (snd (processExternalKey x (srv_controller s) cn))
   \<and> (\<forall>buf d k sb.
        fst (conn_Read 1280 cn) = Inr buf \<and> Unmarshal x buf = Inr d \<and>
        GetSandbox (srv_controller s) (ContainerID d) = Inr (k, sb) \<and>
        fst (SetKey x sb (Key d)) = None \<longrightarrow>
        response (fst (processExternalKey x (srv_controller s) cn)) = ''success'')
   \<and> (\<forall>e. fst (processExternalKey x (srv_controller s) cn) = Some e \<longrightarrow>
        response (fst (processExternalKey x (srv_controller s) cn)) = Error e)
   \<and> (\<forall>buf d.
        fst (conn_Read 1280 cn) = Inr buf \<and> Unmarshal x buf = Inr d \<and>
        ContainerID d \<notin> sandbox_containerID ` snd ` set (sandboxes (srv_controller s)) \<longrightarrow>
        response (fst (processExternalKey x (srv_controller s) cn)) =
          ''failed to get sandbox for '' @ ContainerID d \<and>
        response (fst (processExternalKey x (srv_controller s) cn)) \<noteq> [] \<and>
        srv_controller (handleConnection x s cn) = srv_controller s)
   \<and> (fst (processExternalKey x (srv_controller s) cn) = None \<longleftrightarrow>
        (\<exists>buf d k sb.
           fst (conn_Read 1280 cn) = Inr buf \<and> Unmarshal x buf = Inr d \<and>
           GetSandbox (srv_controller s) (ContainerID d) = Inr (k, sb) \<and>
           fst (SetKey x sb (Key d)) = None))
   \<and> (\<forall>e. fst (conn_Read 1280 cn) = Inl e \<longrightarrow>
        response (fst (processExternalKey x (srv_controller s) cn)) = Error e \<and>
        srv_controller (handleConnection x s cn) = srv_controller s)
   \<and> (\<forall>buf e.
        fst (conn_Read 1280 cn) = Inr buf \<and> Unmarshal x buf = Inl e \<longrightarrow>
        response (fst (processExternalKey x (srv_controller s) cn)) = Error e \<and>
        srv_controller (handleConnection x s cn) = srv_controller s)
   \<and> (\<forall>buf d e.
        fst (conn_Read 1280 cn) = Inr buf \<and> Unmarshal x buf = Inr d \<and>
        GetSandbox (srv_controller s) (ContainerID d) = Inl e \<longrightarrow>
        response (fst (processExternalKey x (srv_controller s) cn)) =
          ''failed to get sandbox for '' @ ContainerID d \<and>
        srv_controller (handleConnection x s cn) = srv_controller s)
   \<and> (\<forall>buf d k sb e.
        fst (conn_Read 1280 cn) = Inr buf \<and> Unmarshal x buf = Inr d \<and>
        GetSandbox (srv_controller s) (ContainerID d) = Inr (k, sb) \<and>
        fst (SetKey x sb (Key d)) = Some e \<longrightarrow>
        response (fst (processExternalKey x (srv_controller s) cn)) = Error e)
   \<and> (\<forall>buf d k sb.
        fst (conn_Read 1280 cn) = Inr buf \<and> Unmarshal x buf = Inr d \<and>
        GetSandbox (srv_controller s) (ContainerID d) = Inr (k, sb) \<longrightarrow>
        srv_controller (handleConnection x s cn) =
          (srv_controller s)
            \<lparr>sandboxes := AList.update k (snd (SetKey x sb (Key d)))
                            (sandboxes (srv_controller s))\<rparr>)"
proof -
  let ?c = "srv_controller s"
  let ?r = "processExternalKey x ?c cn"
  have ctl: "srv_controller (handleConnection x s cn) = fst (snd ?r)"
    by (simp add: handleConnection_def split: prod.splits)
  have c1: "\<exists>cn'. srv_handled (handleConnection x s cn) = srv_handled s @ [cn'] \<and> closed cn' \<and>
      written cn' =
        (if write_failure cn = None then written cn @ [response (fst ?r)] else written cn)"
    by (simp add: handled_by_handleConnection)
  have c3: "response (fst ?r) = ''success''"
    if "fst (conn_Read 1280 cn) = Inr buf \<and> Unmarshal x buf = Inr d \<and>
        GetSandbox ?c (ContainerID d) = Inr (k, sb) \<and> fst (SetKey x sb (Key d)) = None"
    for buf d k sb
    using that by (simp add: processExternalKey_cases response_def success_def)
  have c4: "response (fst ?r) = Error e" if "fst ?r = Some e" for e
    using that by (simp add: response_def)
  have c5: "response (fst ?r) = ''failed to get sandbox for '' @ ContainerID d \<and>
        response (fst ?r) \<noteq> [] \<and> srv_controller (handleConnection x s cn) = ?c"
    if a: "fst (conn_Read 1280 cn) = Inr buf \<and> Unmarshal x buf = Inr d \<and>
        ContainerID d \<notin> sandbox_containerID ` snd ` set (sandboxes ?c)" for buf d
  proof -
    from a have "fst ?r = Some (InvalidParameterError (''failed to get sandbox for '' @ ContainerID d))"
      and "fst (snd ?r) = ?c"
      using unknown_container[of cn buf x d ?c] by blast+
    then show ?thesis using ctl by (simp add: response_def)
  qed
  have c6: "fst ?r = None \<longleftrightarrow>
        (\<exists>buf d k sb.
           fst (conn_Read 1280 cn) = Inr buf \<and> Unmarshal x buf = Inr d \<and>
           GetSandbox ?c (ContainerID d) = Inr (k, sb) \<and> fst (SetKey x sb (Key d)) = None)"
    by (rule processExternalKey_nil_iff)
  have c7: "response (fst ?r) = Error e \<and> srv_controller (handleConnection x s cn) = ?c"
    if "fst (conn_Read 1280 cn) = Inl e" for e
    using that ctl by (simp add: processExternalKey_cases response_def)
  have c8: "response (fst ?r) = Error e \<and> srv_controller (handleConnection x s cn) = ?c"
    if "fst (conn_Read 1280 cn) = Inr buf \<and> Unmarshal x buf = Inl e" for buf e
    using that ctl by (simp add: processExternalKey_cases response_def)
  have c9: "response (fst ?r) = ''failed to get sandbox for '' @ ContainerID d \<and>
        srv_controller (handleConnection x s cn) = ?c"
    if "fst (conn_Read 1280 cn) = Inr buf \<and> Unmarshal x buf = Inr d \<and>
        GetSandbox ?c (ContainerID d) = Inl e" for buf d e
    using that ctl by (simp add: processExternalKey_cases response_def)
  have c10: "response (fst ?r) = Error e"
    if "fst (conn_Read 1280 cn) = Inr buf \<and> Unmarshal x buf = Inr d \<and>
        GetSandbox ?c (ContainerID d) = Inr (k, sb) \<and> fst (SetKey x sb (Key d)) = Some e"
    for buf d k sb e
    using that by (simp add: processExternalKey_cases response_def)
  have c11: "srv_controller (handleConnection x s cn) =
          ?c\<lparr>sandboxes := AList.update k (snd (SetKey x sb (Key d))) (sandboxes ?c)\<rparr>"
    if "fst (conn_Read 1280 cn) = Inr buf \<and> Unmarshal x buf = Inr d \<and>
        GetSandbox ?c (ContainerID d) = Inr (k, sb)" for buf d k sb
    using that ctl by (simp add: processExternalKey_cases)
  from c1 ctl c3 c4 c5 c6 c7 c8 c9 c10 c11 show ?thesis by blast
qed

theorem processExternalKey_response_witness:
  "fst (conn_Read 1280 (sample_conn [Bytes ''c1 /proc/42/ns/net''])) = Inr ''c1 /proc/42/ns/net''
   \<and> Unmarshal sample_externals ''c1 /proc/42/ns/net'' =
       Inr \<lparr>ContainerID = ''c1'', Key = ''/proc/42/ns/net'', OTelTrace = []\<rparr>
   \<and> GetSandbox sample_controller ''c1'' =
       Inr (''sb1'', \<lparr>sandbox_id = ''sb1'', sandbox_containerID = ''c1'', sandbox_key = None\<rparr>)
   \<and> response (fst (processExternalKey sample_externals sample_controller
         (sample_conn [Bytes ''c1 /proc/42/ns/net'']))) = ''success''
   \<and> map written (srv_handled (handleConnection sample_externals sample_server
         (sample_conn [Bytes ''c1 /proc/42/ns/net'']))) = [[''success'']]
   \<and> ''c9'' \<notin> sandbox_containerID ` snd ` set (sandboxes sample_controller)
   \<and> response (fst (processExternalKey sample_externals sample_controller
         (sample_conn [Bytes ''c9 /proc/7/ns/net'']))) = ''failed to get sandbox for c9''
   \<and> srv_controller (handleConnection sample_externals sample_server
         (sample_conn [Bytes ''c9 /proc/7/ns/net''])) = sample_controller
   \<and> sandboxes (srv_controller (handleConnection sample_externals sample_server
         (sample_conn [Bytes ''c1 /proc/42/ns/net'']))) =
       [(''sb1'', \<lparr>sandbox_id = ''sb1'', sandbox_containerID = ''c1'',
                  sandbox_key = Some ''/proc/42/ns/net''\<rparr>)]
   \<and> fst (SetKey setkey_fails_externals
         \<lparr>sandbox_id = ''sb1'', sandbox_containerID = ''c1'', sandbox_key = None\<rparr>
         ''/proc/42/ns/net'') = Some (OSError ''failed to set key'')
   \<and> response (fst (processExternalKey setkey_fails_externals sample_controller
         (sample_conn [Bytes ''c1 /proc/42/ns/net'']))) = ''failed to set key''
   \<and> fst (conn_Read 1280 (sample_conn [ReadError ''EOF''])) = Inl (OSError ''EOF'')
   \<and> response (fst (processExternalKey sample_externals sample_controller
         (sample_conn [ReadError ''EOF'']))) = ''EOF''
   \<and> Unmarshal sample_externals ''{'' = Inl (OSError ''unexpected end of JSON input'')
   \<and> response (fst (processExternalKey sample_externals sample_controller
         (sample_conn [Bytes ''{'']))) = ''unexpected end of JSON input''"
proof -
  let ?known = "sample_conn [Bytes ''c1 /proc/42/ns/net'']"
  let ?unknown = "sample_conn [Bytes ''c9 /proc/7/ns/net'']"
  let ?eof = "sample_conn [ReadError ''EOF'']"
  let ?bad = "sample_conn [Bytes ''{'']"
  let ?d1 = "\<lparr>ContainerID = ''c1'', Key = ''/proc/42/ns/net'', OTelTrace = []\<rparr>"
  let ?d9 = "\<lparr>ContainerID = ''c9'', Key = ''/proc/7/ns/net'', OTelTrace = []\<rparr>"
  let ?sb = "\<lparr>sandbox_id = ''sb1'', sandbox_containerID = ''c1'', sandbox_key = None\<rparr>"
  have sc: "srv_controller sample_server = sample_controller"
    and sh: "srv_handled sample_server = []"
    by (simp_all add: sample_server_def)
  have r1: "fst (conn_Read 1280 ?known) = Inr ''c1 /proc/42/ns/net''"
    and r9: "fst (conn_Read 1280 ?unknown) = Inr ''c9 /proc/7/ns/net''"
    and re: "fst (conn_Read 1280 ?eof) = Inl (OSError ''EOF'')"
    and rb: "fst (conn_Read 1280 ?bad) = Inr ''{''"
    and w: "write_failure ?known = None" "written ?known = []"
    by (simp_all add: conn_Read_def sample_conn_def)
  have u1: "Unmarshal sample_externals ''c1 /proc/42/ns/net'' = Inr ?d1"
    and u9: "Unmarshal sample_externals ''c9 /proc/7/ns/net'' = Inr ?d9"
    and ub: "Unmarshal sample_externals ''{'' = Inl (OSError ''unexpected end of JSON input'')"
    and k: "fst (SetKey sample_externals ?sb (Key ?d1)) = None"
    by (simp_all add: sample_externals_def)
  have f1: "Unmarshal setkey_fails_externals ''c1 /proc/42/ns/net'' = Inr ?d1"
    and fk: "fst (SetKey setkey_fails_externals ?sb (Key ?d1)) =
               Some (OSError ''failed to set key'')"
    by (simp_all add: setkey_fails_externals_def sample_externals_def)
  have g: "GetSandbox sample_controller (ContainerID ?d1) = Inr (''sb1'', ?sb)"
    and n: "ContainerID ?d9 \<notin> sandbox_containerID ` snd ` set (sandboxes sample_controller)"
    by (simp_all add: GetSandbox_def sample_controller_def)
  note known = processExternalKey_response[of sample_externals sample_server ?known,
      unfolded sc sh]
  note unknown = processExternalKey_response[of sample_externals sample_server ?unknown,
      unfolded sc sh]
  note failing = processExternalKey_response[of setkey_fails_externals sample_server ?known,
      unfolded sc sh]
  note eof = processExternalKey_response[of sample_externals sample_server ?eof,
      unfolded sc sh]
  note bad = processExternalKey_response[of sample_externals sample_server ?bad,
      unfolded sc sh]
  from known[THEN conjunct2, THEN conjunct2, THEN conjunct1] r1 u1 g k
  have a: "response (fst (processExternalKey sample_externals sample_controller ?known))
            = ''success''"
    by blast
  from known[THEN conjunct1] obtain cn' where
    "srv_handled (handleConnection sample_externals sample_server ?known) = [] @ [cn']"
    "written cn' = (if write_failure ?known = None
         then written ?known @
           [response (fst (processExternalKey sample_externals sample_controller ?known))]
         else written ?known)"
    by blast
  with a w
  have b: "map written (srv_handled (handleConnection sample_externals sample_server ?known))
            = [[''success'']]"
    by simp
  from unknown[THEN conjunct2, THEN conjunct2, THEN conjunct2, THEN conjunct2, THEN conjunct1] r9 u9 n
  have c: "response (fst (processExternalKey sample_externals sample_controller ?unknown)) =
          ''failed to get sandbox for '' @ ContainerID ?d9"
    and d: "srv_controller (handleConnection sample_externals sample_server ?unknown)
          = sample_controller"
    by blast+
  from known[THEN conjunct2, THEN conjunct2, THEN conjunct2, THEN conjunct2, THEN conjunct2, THEN conjunct2, THEN conjunct2, THEN conjunct2, THEN conjunct2, THEN conjunct2] r1 u1 g
  have eq: "srv_controller (handleConnection sample_externals sample_server ?known) =
          sample_controller
            \<lparr>sandboxes := AList.update ''sb1'' (snd (SetKey sample_externals ?sb (Key ?d1)))
                            (sandboxes sample_controller)\<rparr>"
    by blast
  have upd: "sandboxes (sample_controller
            \<lparr>sandboxes := AList.update ''sb1'' (snd (SetKey sample_externals ?sb (Key ?d1)))
                            (sandboxes sample_controller)\<rparr>) =
       [(''sb1'', \<lparr>sandbox_id = ''sb1'', sandbox_containerID = ''c1'',
                  sandbox_key = Some ''/proc/42/ns/net''\<rparr>)]"
    by (simp add: sample_externals_def sample_controller_def)
  have e: "sandboxes (srv_controller (handleConnection sample_externals sample_server ?known)) =
       [(''sb1'', \<lparr>sandbox_id = ''sb1'', sandbox_containerID = ''c1'',
                  sandbox_key = Some ''/proc/42/ns/net''\<rparr>)]"
    by (simp only: eq upd)
  from failing[THEN conjunct2, THEN conjunct2, THEN conjunct2, THEN conjunct2, THEN conjunct2, THEN conjunct2, THEN conjunct2, THEN conjunct2, THEN conjunct2, THEN conjunct1] r1 f1 g fk
  have "response (fst (processExternalKey setkey_fails_externals sample_controller ?known)) =
          Error (OSError ''failed to set key'')"
    by blast
  then have f: "response (fst (processExternalKey setkey_fails_externals sample_controller ?known))
          = ''failed to set key''"
    by simp
  from eof[THEN conjunct2, THEN conjunct2, THEN conjunct2, THEN conjunct2, THEN conjunct2, THEN conjunct2, THEN conjunct1] re
  have "response (fst (processExternalKey sample_externals sample_controller ?eof)) =
          Error (OSError ''EOF'')"
    by blast
  then have h: "response (fst (processExternalKey sample_externals sample_controller ?eof)) = ''EOF''"
    by simp
  from bad[THEN conjunct2, THEN conjunct2, THEN conjunct2, THEN conjunct2, THEN conjunct2, THEN conjunct2, THEN conjunct2, THEN conjunct1] rb ub
  have "response (fst (processExternalKey sample_externals sample_controller ?bad)) =
          Error (OSError ''unexpected end of JSON input'')"
    by blast
  then have i: "response (fst (processExternalKey sample_externals sample_controller ?bad)) =
          ''unexpected end of JSON input''"
    by simp
  from r1 u1 g a b n c d e fk f re h ub i show ?thesis by simp
qed

subsection \<open>One bounded read on each side\<close>

text \<open>
  Claim C8, as amended. Each side performs one read per connection and takes the bytes
  of that read for the whole message. The client reads the response into a buffer of
  1024 bytes; the server reads the request into a buffer of 1280 bytes, and neither the
  bytes past the buffer nor anything arriving later has any effect on its answer or on
  the controller. When the client's read succeeds, it returns \<open>nil\<close> exactly when the
  bytes are \<open>success\<close>, and otherwise an error whose message is exactly the bytes read;
  when its read fails, it returns an error whose message is
  \<open>failed to read buf in processReturn : \<close> followed by the text of the read error.
\<close>

theorem key_exchange_single_bounded_read:
  "snd (processReturn r) = snd (conn_Read 1024 r)
   \<and> (fst (processReturn r) = None \<longleftrightarrow> fst (conn_Read 1024 r) = Inr ''success'')
   \<and> (\<forall>buf. fst (conn_Read 1024 r) = Inr buf \<and> buf \<noteq> ''success'' \<longrightarrow>
         length buf \<le> 1024 \<and> (\<exists>e. fst (processReturn r) = Some e \<and> Error e = buf))
   \<and> (\<forall>e. fst (conn_Read 1024 r) = Inl e \<longrightarrow>
         (\<exists>e'. fst (processReturn r) = Some e' \<and>
            Error e' = ''failed to read buf in processReturn : '' @ Error e))
   \<and> snd (snd (processExternalKey x c cn)) = snd (conn_Read 1280 cn)
   \<and> (\<forall>bs rest. incoming cn = Bytes bs # rest \<longrightarrow>
         fst (processExternalKey x c cn) =
           fst (processExternalKey x c (cn\<lparr>incoming := [Bytes (take 1280 bs)]\<rparr>)) \<and>
         fst (snd (processExternalKey x c cn)) =
           fst (snd (processExternalKey x c (cn\<lparr>incoming := [Bytes (take 1280 bs)]\<rparr>))))"
  by (auto simp: processReturn_def processExternalKey_def conn_Read_def success_def
      split: prod.splits sum.splits list.splits read_event.splits)

theorem key_exchange_single_bounded_read_witness:
  "fst (conn_Read 1024 (sample_conn [Bytes ''failed to get sandbox for c9''])) =
     Inr ''failed to get sandbox for c9''
   \<and> map_option Error (fst (processReturn (sample_conn [Bytes ''failed to get sandbox for c9''])))
       = Some ''failed to get sandbox for c9''
   \<and> fst (conn_Read 1024 (sample_conn [ReadError ''EOF''])) = Inl (OSError ''EOF'')
   \<and> map_option Error (fst (processReturn (sample_conn [ReadError ''EOF''])))
       = Some ''failed to read buf in processReturn : EOF''
   \<and> incoming (sample_conn [Bytes (replicate 1300 CHR ''a''), Bytes ''tail''])
       = [Bytes (replicate 1300 CHR ''a''), Bytes ''tail'']
   \<and> fst (processExternalKey echo_externals sample_controller
         (sample_conn [Bytes (replicate 1300 CHR ''a''), Bytes ''tail'']))
       = Some (OSError (replicate 1280 CHR ''a''))"
proof -
  let ?r = "sample_conn [Bytes ''failed to get sandbox for c9'']"
  let ?f = "sample_conn [ReadError ''EOF'']"
  let ?big = "sample_conn [Bytes (replicate 1300 CHR ''a''), Bytes ''tail'']"
  have r: "fst (conn_Read 1024 ?r) = Inr ''failed to get sandbox for c9''"
    and f: "fst (conn_Read 1024 ?f) = Inl (OSError ''EOF'')"
    and i: "incoming ?big = [Bytes (replicate 1300 CHR ''a''), Bytes ''tail'']"
    by (simp_all add: conn_Read_def sample_conn_def)
  have ne: "''failed to get sandbox for c9'' \<noteq> ''success''" by simp
  from key_exchange_single_bounded_read[of ?r] r ne
  have a: "map_option Error (fst (processReturn ?r)) = Some ''failed to get sandbox for c9''"
    by fastforce
  from key_exchange_single_bounded_read[of ?f] f
  have b: "map_option Error (fst (processReturn ?f))
             = Some ''failed to read buf in processReturn : EOF''"
    by fastforce
  from key_exchange_single_bounded_read[of _ echo_externals sample_controller ?big] i
  have "fst (processExternalKey echo_externals sample_controller ?big) =
        fst (processExternalKey echo_externals sample_controller
              (?big\<lparr>incoming := [Bytes (take 1280 (replicate 1300 CHR ''a''))]\<rparr>))"
    by blast
  also have "\<dots> = Some (OSError (replicate 1280 CHR ''a''))"
    by (simp add: processExternalKey_def conn_Read_def sample_conn_def echo_externals_def)
  finally have c: "fst (processExternalKey echo_externals sample_controller ?big)
       = Some (OSError (replicate 1280 CHR ''a''))" .
  from r a f b i c show ?thesis by simp
qed

text \<open>
  The claim as it was stated fails in two places. A client whose read fails (the server
  closed the connection without writing) has read no bytes, yet the message of the
  error it returns is not empty; and a request of 1100 bytes, more than 1024, is read by
  the server in full, here by a decoder that rejects it and quotes all of it.
\<close>

theorem key_exchange_read_claim_counterexample:
  "fst (processReturn (sample_conn [ReadError ''EOF''])) =
     Some (Errorf ''failed to read buf in processReturn : EOF'')
   \<and> fst (processExternalKey echo_externals sample_controller
          (sample_conn [Bytes (replicate 1100 CHR ''a'')])) =
     Some (OSError (replicate 1100 CHR ''a''))
   \<and> length (replicate 1100 CHR ''a'') = 1100"
  by (simp add: processReturn_def processExternalKey_def conn_Read_def sample_conn_def
        echo_externals_def)

subsection \<open>The accept loop\<close>

lemma accept_stopped_iff:
  "fst (acceptClientConnections x sock evs s) = Stopped \<longleftrightarrow>
   (\<exists>e. AcceptFailed e StatNotExist \<in> set evs)"
  by (induction x sock evs s rule: acceptClientConnections.induct) auto

lemma handleConnection_log_mono:
  "set (srv_log s) \<subseteq> set (srv_log (handleConnection x s cn))"
  by (auto simp: handleConnection_def split: prod.splits option.splits)

lemma handleConnection_handled_length:
  "length (srv_handled (handleConnection x s cn)) = Suc (length (srv_handled s))"
  by (auto simp: handleConnection_def split: prod.splits option.splits)

lemma accept_log_mono:
  "set (srv_log s) \<subseteq> set (srv_log (snd (acceptClientConnections x sock evs s)))"
proof (induction x sock evs s rule: acceptClientConnections.induct)
  case (2 x sock cn evs s)
  then show ?case using handleConnection_log_mono[of s x cn] by auto
qed auto

lemma accept_append:
  "\<forall>e. AcceptFailed e StatNotExist \<notin> set pre \<Longrightarrow>
   acceptClientConnections x sock (pre @ evs) s =
     acceptClientConnections x sock evs (snd (acceptClientConnections x sock pre s))"
  by (induction x sock pre s rule: acceptClientConnections.induct) auto

lemma accept_handles_all:
  "\<forall>e. AcceptFailed e StatNotExist \<notin> set evs \<Longrightarrow>
   length (srv_handled (snd (acceptClientConnections x sock evs s))) =
     length (srv_handled s) + length (filter is_Accepted evs)"
  by (induction x sock evs s rule: acceptClientConnections.induct)
     (auto simp: handleConnection_handled_length)

lemma accept_logs_errors:
  "\<forall>e. AcceptFailed e StatNotExist \<notin> set evs \<Longrightarrow> AcceptFailed e st \<in> set evs \<Longrightarrow>
   (ErrorLevel, ''Error accepting connection '' @ e)
     \<in> set (srv_log (snd (acceptClientConnections x sock evs s)))"
proof (induction x sock evs s rule: acceptClientConnections.induct)
  case (3 x sock err st' evs s)
  show ?case
  proof (cases "AcceptFailed e st = AcceptFailed err st'")
    case True
    then show ?thesis
      using 3(2) accept_log_mono[of "s\<lparr>srv_log := srv_log s @
               [(ErrorLevel, ''Error accepting connection '' @ err)]\<rparr>" x sock evs]
      by auto
  next
    case False
    then show ?thesis using 3 by auto
  qed
qed auto

text \<open>
  Claim C9. The accept loop stops exactly when some \<open>Accept\<close> fails while the socket
  path no longer exists. At the first such failure it stops at once, having handled
  what came before and handling nothing that comes after; it logs no error there, only
  the debug-level note that the listener will stop. As long as no such failure has
  occurred the loop is still accepting: every connection accepted so far has been
  handled, and every other \<open>Accept\<close> error has been logged at error level.
\<close>

theorem accept_loop_stops_only_on_removed_socket:
  "(fst (acceptClientConnections x sock evs s) = Stopped \<longleftrightarrow>
      (\<exists>e. AcceptFailed e StatNotExist \<in> set evs))
   \<and> ((\<forall>e. AcceptFailed e StatNotExist \<notin> set pre) \<longrightarrow>
        acceptClientConnections x sock (pre @ AcceptFailed err StatNotExist # post) s =
          (Stopped,
           (snd (acceptClientConnections x sock pre s))
             \<lparr>srv_log := srv_log (snd (acceptClientConnections x sock pre s)) @
                [(DebugLevel, ''Unix socket '' @ sock @
                    '' was closed. The external key listener will stop.'')]\<rparr>))
   \<and> ((\<forall>e. AcceptFailed e StatNotExist \<notin> set evs) \<longrightarrow>
        fst (acceptClientConnections x sock evs s) = Accepting \<and>
        length (srv_handled (snd (acceptClientConnections x sock evs s))) =
          length (srv_handled s) + length (filter is_Accepted evs) \<and>
        (\<forall>e st. AcceptFailed e st \<in> set evs \<longrightarrow>
           (ErrorLevel, ''Error accepting connection '' @ e)
             \<in> set (srv_log (snd (acceptClientConnections x sock evs s)))))"
proof (intro conjI impI allI)
  show "fst (acceptClientConnections x sock evs s) = Stopped \<longleftrightarrow>
      (\<exists>e. AcceptFailed e StatNotExist \<in> set evs)"
    by (rule accept_stopped_iff)
  show "acceptClientConnections x sock (pre @ AcceptFailed err StatNotExist # post) s =
          (Stopped,
           (snd (acceptClientConnections x sock pre s))
             \<lparr>srv_log := srv_log (snd (acceptClientConnections x sock pre s)) @
                [(DebugLevel, ''Unix socket '' @ sock @
                    '' was closed. The external key listener will stop.'')]\<rparr>)"
    if "\<forall>e. AcceptFailed e StatNotExist \<notin> set pre"
    using that by (simp add: accept_append)
  assume n: "\<forall>e. AcceptFailed e StatNotExist \<notin> set evs"
  show "fst (acceptClientConnections x sock evs s) = Accepting"
    using n accept_stopped_iff[of x sock evs s]
    by (cases "fst (acceptClientConnections x sock evs s)") auto
  show "length (srv_handled (snd (acceptClientConnections x sock evs s))) =
          length (srv_handled s) + length (filter is_Accepted evs)"
    using n by (rule accept_handles_all)
  show "(ErrorLevel, ''Error accepting connection '' @ e)
             \<in> set (srv_log (snd (acceptClientConnections x sock evs s)))"
    if "AcceptFailed e st \<in> set evs" for e st
    using n that by (rule accept_logs_errors)
qed

theorem accept_loop_stops_only_on_removed_socket_witness:
  "fst (acceptClientConnections sample_externals ''/run/docker/libnetwork/0123456789ab.sock''
      [AcceptFailed ''too many open files'' StatOk,
       Accepted (sample_conn [Bytes ''c1 /proc/42/ns/net''])] sample_server) = Accepting
   \<and> length (srv_handled (snd (acceptClientConnections sample_externals
        ''/run/docker/libnetwork/0123456789ab.sock''
        [AcceptFailed ''too many open files'' StatOk,
         Accepted (sample_conn [Bytes ''c1 /proc/42/ns/net''])] sample_server))) = 1
   \<and> (ErrorLevel, ''Error accepting connection too many open files'')
       \<in> set (srv_log (snd (acceptClientConnections sample_externals
        ''/run/docker/libnetwork/0123456789ab.sock''
        [AcceptFailed ''too many open files'' StatOk,
         Accepted (sample_conn [Bytes ''c1 /proc/42/ns/net''])] sample_server)))
   \<and> fst (acceptClientConnections sample_externals ''/run/docker/libnetwork/0123456789ab.sock''
      ([AcceptFailed ''too many open files'' StatOk,
        Accepted (sample_conn [Bytes ''c1 /proc/42/ns/net''])] @
       AcceptFailed ''use of closed network connection'' StatNotExist #
       [Accepted (sample_conn [Bytes ''c9 /proc/7/ns/net''])]) sample_server) = Stopped"
proof -
  let ?sock = "''/run/docker/libnetwork/0123456789ab.sock''"
  let ?pre = "[AcceptFailed ''too many open files'' StatOk,
       Accepted (sample_conn [Bytes ''c1 /proc/42/ns/net''])]"
  let ?post = "[Accepted (sample_conn [Bytes ''c9 /proc/7/ns/net''])]"
  have n: "\<forall>e. AcceptFailed e StatNotExist \<notin> set ?pre" by simp
  have m: "AcceptFailed ''too many open files'' StatOk \<in> set ?pre" by simp
  have h: "srv_handled sample_server = []" by (simp add: sample_server_def)
  have l: "length (filter is_Accepted ?pre) = 1" by simp
  note T = accept_loop_stops_only_on_removed_socket[of sample_externals ?sock ?pre
      sample_server ?pre "''use of closed network connection''" ?post]
  from T n have a: "fst (acceptClientConnections sample_externals ?sock ?pre sample_server)
      = Accepting"
    and b: "length (srv_handled (snd (acceptClientConnections sample_externals ?sock ?pre
        sample_server))) = length (srv_handled sample_server) + length (filter is_Accepted ?pre)"
    and c: "\<forall>e st. AcceptFailed e st \<in> set ?pre \<longrightarrow>
           (ErrorLevel, ''Error accepting connection '' @ e)
             \<in> set (srv_log (snd (acceptClientConnections sample_externals ?sock ?pre
                  sample_server)))"
    and d: "fst (acceptClientConnections sample_externals ?sock
        (?pre @ AcceptFailed ''use of closed network connection'' StatNotExist # ?post)
        sample_server) = Stopped"
    by (blast, blast, blast, metis fst_conv)
  from c m have c': "(ErrorLevel, ''Error accepting connection '' @ ''too many open files'')
       \<in> set (srv_log (snd (acceptClientConnections sample_externals ?sock ?pre
                  sample_server)))"
    by blast
  from a b c' d h l show ?thesis by simp
qed

subsection \<open>Starting the listener\<close>

text \<open>
  Claim C10. \<open>startExternalKeyListener\<close> returns \<open>nil\<close> exactly when \<open>MkdirAll\<close>,
  \<open>Listen\<close> and \<open>Chmod\<close> (to mode 0600) have all succeeded, and only then is the accept
  loop started, on the listener that is now open and recorded in the controller. On
  every error return, a failed \<open>Chmod\<close> included (the listener just made is closed
  again), the open listeners and the running accept loops are what they were before
  the call, and the controller is unchanged.
\<close>

theorem startExternalKeyListener_all_or_nothing:
  "startExternalKeyListener x os c h = (err, c', h') \<Longrightarrow>
   (err = None \<longleftrightarrow>
      MkdirAll os (udsBase c) mode_0o600 = None \<and> Listen os (uds x c) = None \<and>
      Chmod os (uds x c) mode_0o600 = None)
   \<and> (if err = None
      then host_tasks h' = uds x c # host_tasks h \<and>
           host_listeners h' = uds x c # host_listeners h \<and>
           map_of (host_modes h') (uds x c) = Some mode_0o600 \<and>
           extKeyListener c' = Some (uds x c)
      else host_tasks h' = host_tasks h \<and> host_listeners h' = host_listeners h \<and> c' = c)"
proof -
  assume r: "startExternalKeyListener x os c h = (err, c', h')"
  show ?thesis
  proof (cases "MkdirAll os (udsBase c) mode_0o600")
    case (Some e)
    with r have "err = Some e" "c' = c" "h' = h"
      by (auto simp: startExternalKeyListener_def)
    with Some show ?thesis by simp
  next
    case m: None
    show ?thesis
    proof (cases "Listen os (uds x c)")
      case (Some e)
      with r m have "err = Some e" "c' = c"
        "h' = h\<lparr>host_dirs := (udsBase c, mode_0o600) # host_dirs h\<rparr>"
        by (auto simp: startExternalKeyListener_def Let_def)
      with Some show ?thesis by simp
    next
      case l: None
      show ?thesis
      proof (cases "Chmod os (uds x c) mode_0o600")
        case (Some e)
        with r m l have "err = Some e" "c' = c"
          "h' = h\<lparr>host_dirs := (udsBase c, mode_0o600) # host_dirs h\<rparr>"
          by (auto simp: startExternalKeyListener_def Let_def)
        with Some show ?thesis by simp
      next
        case None
        with r m l have "err = None" "c' = c\<lparr>extKeyListener := Some (uds x c)\<rparr>"
          "h' = h\<lparr>host_dirs := (udsBase c, mode_0o600) # host_dirs h,
                  host_listeners := uds x c # host_listeners h,
                  host_modes := (uds x c, mode_0o600) # host_modes h,
                  host_tasks := uds x c # host_tasks h\<rparr>"
          by (auto simp: startExternalKeyListener_def Let_def)
        with None m l show ?thesis by simp
      qed
    qed
  qed
qed

theorem startExternalKeyListener_all_or_nothing_witness:
  "startExternalKeyListener sample_externals os_chmod_fails sample_controller sample_host =
     (Some (OSError ''operation not permitted''), sample_controller,
      sample_host\<lparr>host_dirs := [(''/run/docker/libnetwork'', 384)]\<rparr>)
   \<and> host_listeners (sample_host\<lparr>host_dirs := [(''/run/docker/libnetwork'', 384)]\<rparr>) = []
   \<and> host_tasks (sample_host\<lparr>host_dirs := [(''/run/docker/libnetwork'', 384)]\<rparr>) = []
   \<and> fst (startExternalKeyListener sample_externals os_all_succeed sample_controller
            sample_host) = None
   \<and> host_tasks (snd (snd (startExternalKeyListener sample_externals os_all_succeed
            sample_controller sample_host))) = [''/run/docker/libnetwork/0123456789ab.sock'']"
proof -
  let ?h = "sample_host\<lparr>host_dirs := [(''/run/docker/libnetwork'', 384)]\<rparr>"
  have u: "uds sample_externals sample_controller = ''/run/docker/libnetwork/0123456789ab.sock''"
    by (simp add: uds_def udsBase_def Join_def sample_externals_def sample_controller_def
        defaultExecRoot_def execSubdir_def)
  have e: "startExternalKeyListener sample_externals os_chmod_fails sample_controller
      sample_host = (Some (OSError ''operation not permitted''), sample_controller, ?h)"
    by (simp add: startExternalKeyListener_def os_chmod_fails_def sample_host_def
        udsBase_def Join_def sample_controller_def defaultExecRoot_def execSubdir_def
        mode_0o600_def)
  have t: "host_tasks sample_host = []" "host_listeners sample_host = []"
    by (simp_all add: sample_host_def)
  obtain err c' h' where ok: "startExternalKeyListener sample_externals os_all_succeed
      sample_controller sample_host = (err, c', h')"
    by (cases "startExternalKeyListener sample_externals os_all_succeed
      sample_controller sample_host") auto
  have s: "MkdirAll os_all_succeed (udsBase sample_controller) mode_0o600 = None"
    "Listen os_all_succeed (uds sample_externals sample_controller) = None"
    "Chmod os_all_succeed (uds sample_externals sample_controller) mode_0o600 = None"
    by (simp_all add: os_all_succeed_def)
  from startExternalKeyListener_all_or_nothing[OF e] t
  have a: "host_listeners ?h = []" "host_tasks ?h = []" by simp_all
  from startExternalKeyListener_all_or_nothing[OF ok] s t u
  have b: "err = None" "host_tasks h' = [''/run/docker/libnetwork/0123456789ab.sock'']"
    by simp_all
  from e a b ok show ?thesis by simp
qed

section \<open>Properties of the service records\<close>

subsection \<open>Splitting and joining\<close>










subsection \<open>Two registrants sharing one address\<close>







end
